theory Spec2Isabelle
  imports Main
begin

section \<open>The admin menu page (src/pages/AdminMenu.tsx)\<close>

text \<open>
  The page is a React component whose handlers are asynchronous functions. Each handler is
  embedded as a function on an explicit state: the four \<^verbatim>\<open>useState\<close> cells of the
  component, the browser's local storage, and the effects the handlers cause (toasts,
  navigations, console lines, requests sent to the backend, open push channels). What the
  backend answers is an input of the handler. A handler that awaits the backend is split at
  the \<^verbatim>\<open>await\<close> where another function continues before the answer arrives.

  Strings are lists of code units; the accented letters of the Spanish texts are below 256
  and are written \<open>CHR 0x..\<close>.
\<close>

subsection \<open>Data model\<close>

text \<open>
  Modelled from the spec: the type \<^verbatim>\<open>MenuItem\<close> is imported from
  \<^verbatim>\<open>@/data/menuData\<close>, which is not among the sources. Its fields are those of
  section 3 of the specification and of the literal records in \<^verbatim>\<open>fetchMenuItems\<close>;
  \<open>name\<close> and \<open>description\<close> carry the two locales \<open>en\<close> and \<open>es\<close>. The fields
  \<^verbatim>\<open>id\<close> and \<^verbatim>\<open>image\<close> are called \<open>item_id\<close> and \<open>item_image\<close> here.
\<close>

record localized =
  en :: string
  es :: string

record MenuItem =
  item_id :: string
  name :: localized
  description :: localized
  price :: string
  category :: string
  isPopular :: bool
  isVegetarian :: bool
  ingredients :: "string list"
  item_image :: string

text \<open>\<^verbatim>\<open>Partial<MenuItem>\<close>: every key may be absent (\<open>None\<close>).\<close>

record MenuItem_partial =
  p_id :: "string option"
  p_name :: "localized option"
  p_description :: "localized option"
  p_price :: "string option"
  p_category :: "string option"
  p_isPopular :: "bool option"
  p_isVegetarian :: "bool option"
  p_ingredients :: "string list option"
  p_image :: "string option"

definition no_updates :: MenuItem_partial where
  "no_updates = \<lparr> p_id = None, p_name = None, p_description = None, p_price = None,
     p_category = None, p_isPopular = None, p_isVegetarian = None, p_ingredients = None,
     p_image = None \<rparr>"

text \<open>The object spread \<^verbatim>\<open>{ ...item, ...updates }\<close>: a key of \<open>updates\<close> wins.\<close>

definition override :: "'a \<Rightarrow> 'a option \<Rightarrow> 'a" where
  "override old new = (case new of None \<Rightarrow> old | Some v \<Rightarrow> v)"

definition spread :: "MenuItem \<Rightarrow> MenuItem_partial \<Rightarrow> MenuItem" where
  "spread item updates =
     \<lparr> item_id = override (item_id item) (p_id updates),
       name = override (name item) (p_name updates),
       description = override (description item) (p_description updates),
       price = override (price item) (p_price updates),
       category = override (category item) (p_category updates),
       isPopular = override (isPopular item) (p_isPopular updates),
       isVegetarian = override (isVegetarian item) (p_isVegetarian updates),
       ingredients = override (ingredients item) (p_ingredients updates),
       item_image = override (item_image item) (p_image updates) \<rparr>"

subsection \<open>Effects and backend answers\<close>

datatype toast_variant = Default | Destructive

record toast =
  variant :: toast_variant
  title :: string
  toast_description :: string

datatype console_line = ConsoleError string string | ConsoleLog string string

datatype request =
    ReqSessionCheck
  | ReqSelect
  | ReqUpdate string MenuItem_partial
  | ReqDelete string
  | ReqSignOut

text \<open>
  The answer to \<^verbatim>\<open>await supabase.from('menu_items').select('*')\<close>: the object
  \<^verbatim>\<open>{ data, error }\<close> with \<open>error\<close> null (\<open>data\<close> may be null too), the same object
  with an error (of which the code reads \<open>message\<close>), or a rejected promise, which the
  \<^verbatim>\<open>await\<close> throws.
\<close>

datatype select_result =
    SelectData "MenuItem list option"
  | SelectError string
  | SelectThrows string

text \<open>The answer to an update, a delete or a sign-out: \<^verbatim>\<open>{ error }\<close> or a throw.\<close>

datatype write_result = WriteOk | WriteError string | WriteThrows string

text \<open>The answer of \<^verbatim>\<open>isAuthenticated()\<close>, a promise of a boolean.\<close>

datatype session_result = SessionValid bool | SessionThrows string

text \<open>
  Modelled from the spec: the push channel of the backend client (\<^verbatim>\<open>supabase.channel\<close>,
  \<^verbatim>\<open>on\<close>, \<^verbatim>\<open>subscribe\<close>, \<^verbatim>\<open>removeChannel\<close>) comes from \<^verbatim>\<open>@/lib/supabase\<close>,
  which is not among the sources. Following sections 4.3 and 6 of the specification, the
  client keeps the subscriptions that are open, delivers a change event only to a
  subscription that is open, and forgets a subscription when it is removed.
\<close>

record channel =
  chan_id :: nat
  topic :: string
  kind :: string
  event_filter :: string
  schema :: string
  table :: string

datatype change_event = INSERT | UPDATE | DELETE

fun event_name :: "change_event \<Rightarrow> string" where
  "event_name INSERT = ''INSERT''"
| "event_name UPDATE = ''UPDATE''"
| "event_name DELETE = ''DELETE''"

subsection \<open>The state\<close>

record page =
  items :: "MenuItem list"
  loading :: bool
  selectedItem :: "MenuItem option"
  isEditing :: bool
  localStorage :: "string \<rightharpoonup> string"
  toasts :: "toast list"
  navigated :: "string list"
  console :: "console_line list"
  requests :: "request list"
  channels :: "channel list"
  next_chan :: nat

text \<open>The component as \<^verbatim>\<open>useState\<close> initialises it, in a browser with the given storage.\<close>

definition AdminMenu_init :: "(string \<rightharpoonup> string) \<Rightarrow> page" where
  "AdminMenu_init storage =
     \<lparr> items = [], loading = True, selectedItem = None, isEditing = False,
       localStorage = storage, toasts = [], navigated = [], console = [], requests = [],
       channels = [], next_chan = 0 \<rparr>"

definition show_toast :: "toast \<Rightarrow> page \<Rightarrow> page" where
  "show_toast t s = s\<lparr>toasts := toasts s @ [t]\<rparr>"

definition navigate :: "string \<Rightarrow> page \<Rightarrow> page" where
  "navigate route s = s\<lparr>navigated := navigated s @ [route]\<rparr>"

definition console_error :: "string \<Rightarrow> string \<Rightarrow> page \<Rightarrow> page" where
  "console_error label msg s = s\<lparr>console := console s @ [ConsoleError label msg]\<rparr>"

definition console_log :: "string \<Rightarrow> string \<Rightarrow> page \<Rightarrow> page" where
  "console_log label msg s = s\<lparr>console := console s @ [ConsoleLog label msg]\<rparr>"

definition send :: "request \<Rightarrow> page \<Rightarrow> page" where
  "send q s = s\<lparr>requests := requests s @ [q]\<rparr>"

definition removeItem :: "string \<Rightarrow> page \<Rightarrow> page" where
  "removeItem k s = s\<lparr>localStorage := (localStorage s)(k := None)\<rparr>"

text \<open>\<^verbatim>\<open>localStorage.getItem('dev_admin_authenticated') === 'true'\<close>\<close>

definition devAuthenticated :: "page \<Rightarrow> bool" where
  "devAuthenticated s = (localStorage s ''dev_admin_authenticated'' = Some ''true'')"

subsection \<open>fetchMenuItems\<close>

definition mockData :: "MenuItem list" where
  "mockData =
     [ \<lparr> item_id = ''1'',
         name = \<lparr> en = ''Lomo Saltado'', es = ''Lomo Saltado'' \<rparr>,
         description =
           \<lparr> en = ''Stir-fried beef with onions, tomatoes and french fries'',
             es = ''Carne de res salteada con cebollas, tomates y papas fritas'' \<rparr>,
         price = ''$15.99'',
         category = ''mainDish'',
         isPopular = True,
         isVegetarian = False,
         ingredients = [''beef'', ''onions'', ''tomatoes'', ''soy sauce'', ''french fries''],
         item_image = ''/placeholder.svg'' \<rparr>,
       \<lparr> item_id = ''2'',
         name = \<lparr> en = ''Ceviche'', es = ''Ceviche'' \<rparr>,
         description =
           \<lparr> en = ''Fresh fish cured in citrus juices with onions and chili peppers'',
             es = ''Pescado fresco curado en jugos c'' @ [CHR 0xED] @
                  ''tricos con cebollas y aj'' @ [CHR 0xED] @ ''es'' \<rparr>,
         price = ''$14.99'',
         category = ''coldDishes'',
         isPopular = True,
         isVegetarian = False,
         ingredients = [''fish'', ''lime juice'', ''onions'', ''cilantro'', ''chili peppers''],
         item_image = ''/placeholder.svg'' \<rparr> ]"

definition toast_dev_mode :: toast where
  "toast_dev_mode =
     \<lparr> variant = Default,
       title = ''Modo de desarrollo'',
       toast_description = ''Usando datos de muestra para desarrollo'' \<rparr>"

definition toast_load_error :: "string \<Rightarrow> toast" where
  "toast_load_error msg =
     \<lparr> variant = Destructive,
       title = ''Error al cargar elementos del men'' @ [CHR 0xFA],
       toast_description = msg \<rparr>"

text \<open>Up to the \<^verbatim>\<open>await\<close>: the loading flag is raised and the read is sent.\<close>

definition fetchMenuItems_begin :: "page \<Rightarrow> page" where
  "fetchMenuItems_begin s = send ReqSelect (s\<lparr>loading := True\<rparr>)"

text \<open>
  From the answer on: the \<^verbatim>\<open>if (error)\<close> of the try block, the catch block for a
  throw, and the finally block.
\<close>

definition fetchMenuItems_resume :: "select_result \<Rightarrow> page \<Rightarrow> page" where
  "fetchMenuItems_resume r s =
     (let s1 =
        (case r of
           SelectError msg \<Rightarrow>
             (let s' = console_error ''Supabase fetch error:'' msg s in
              if devAuthenticated s'
              then show_toast toast_dev_mode (s'\<lparr>items := mockData\<rparr>)
              else s')
         | SelectData d \<Rightarrow>
             s\<lparr>items := (case d of None \<Rightarrow> [] | Some rows \<Rightarrow> rows)\<rparr>
         | SelectThrows msg \<Rightarrow>
             (let s' = show_toast (toast_load_error msg)
                         (console_error ''Error fetching menu items:'' msg s) in
              if devAuthenticated s' then s'\<lparr>items := []\<rparr> else s'))
      in s1\<lparr>loading := False\<rparr>)"

definition fetchMenuItems :: "select_result \<Rightarrow> page \<Rightarrow> page" where
  "fetchMenuItems r s = fetchMenuItems_resume r (fetchMenuItems_begin s)"

subsection \<open>handleUpdateItem\<close>

definition toast_update_ok :: toast where
  "toast_update_ok =
     \<lparr> variant = Default,
       title = [CHR 0xC9] @ ''xito'',
       toast_description =
         ''Elemento del men'' @ [CHR 0xFA] @ '' actualizado correctamente'' \<rparr>"

definition toast_update_error :: "string \<Rightarrow> toast" where
  "toast_update_error msg =
     \<lparr> variant = Destructive,
       title = ''Error al actualizar el elemento del men'' @ [CHR 0xFA],
       toast_description = msg \<rparr>"

text \<open>
  What follows the \<^verbatim>\<open>if (error)\<close> block in the try block: the success toast, the
  call of the loader, which is not awaited and so runs up to its own \<^verbatim>\<open>await\<close>, and
  the closing of the edit modal.
\<close>

definition handleUpdateItem_done :: "page \<Rightarrow> page" where
  "handleUpdateItem_done s =
     (fetchMenuItems_begin (show_toast toast_update_ok s))
       \<lparr>isEditing := False, selectedItem := None\<rparr>"

text \<open>
  The try block. The result is the thrown error, if any, and the state it leaves. The
  \<open>items\<close> that \<^verbatim>\<open>items.map\<close> reads are those of the closure, that is of the state in
  which the handler was called.
\<close>

definition handleUpdateItem_try ::
  "string \<Rightarrow> MenuItem_partial \<Rightarrow> write_result \<Rightarrow> page \<Rightarrow> string option \<times> page" where
  "handleUpdateItem_try i updates w s =
     (let s1 = send (ReqUpdate i updates) (s\<lparr>loading := True\<rparr>) in
      case w of
        WriteThrows msg \<Rightarrow> (Some msg, s1)
      | WriteOk \<Rightarrow> (None, handleUpdateItem_done s1)
      | WriteError msg \<Rightarrow>
          (let s2 = console_error ''Supabase update error:'' msg s1 in
           if devAuthenticated s2
           then (None, handleUpdateItem_done
                   (s2\<lparr>items := map (\<lambda>item. if item_id item = i then spread item updates
                                            else item) (items s)\<rparr>))
           else (Some msg, s2)))"

text \<open>The handler up to its return: try, catch and finally.\<close>

definition handleUpdateItem ::
  "string \<Rightarrow> MenuItem_partial \<Rightarrow> write_result \<Rightarrow> page \<Rightarrow> page" where
  "handleUpdateItem i updates w s =
     (let (thrown, s1) = handleUpdateItem_try i updates w s;
          s2 = (case thrown of
                  None \<Rightarrow> s1
                | Some msg \<Rightarrow> show_toast (toast_update_error msg) s1)
      in s2\<lparr>loading := False\<rparr>)"

text \<open>
  The handler followed by the rest of the loader it started, once the backend has answered
  the read with \<open>r\<close>. On a thrown path no loader was started.
\<close>

definition handleUpdateItem_reloaded ::
  "string \<Rightarrow> MenuItem_partial \<Rightarrow> write_result \<Rightarrow> select_result \<Rightarrow> page \<Rightarrow> page" where
  "handleUpdateItem_reloaded i updates w r s =
     (case fst (handleUpdateItem_try i updates w s) of
        None \<Rightarrow> fetchMenuItems_resume r (handleUpdateItem i updates w s)
      | Some msg \<Rightarrow> handleUpdateItem i updates w s)"

subsection \<open>handleDeleteItem\<close>

definition confirm_delete_text :: string where
  "confirm_delete_text =
     [CHR 0xBF] @ ''Est'' @ [CHR 0xE1] @ ''s seguro de que deseas eliminar este elemento?''"

definition toast_delete_ok :: toast where
  "toast_delete_ok =
     \<lparr> variant = Default,
       title = [CHR 0xC9] @ ''xito'',
       toast_description =
         ''Elemento del men'' @ [CHR 0xFA] @ '' eliminado correctamente'' \<rparr>"

definition toast_delete_error :: "string \<Rightarrow> toast" where
  "toast_delete_error msg =
     \<lparr> variant = Destructive,
       title = ''Error al eliminar el elemento del men'' @ [CHR 0xFA],
       toast_description = msg \<rparr>"

definition handleDeleteItem_done :: "page \<Rightarrow> page" where
  "handleDeleteItem_done s = fetchMenuItems_begin (show_toast toast_delete_ok s)"

definition handleDeleteItem_try ::
  "string \<Rightarrow> write_result \<Rightarrow> page \<Rightarrow> string option \<times> page" where
  "handleDeleteItem_try i w s =
     (let s1 = send (ReqDelete i) (s\<lparr>loading := True\<rparr>) in
      case w of
        WriteThrows msg \<Rightarrow> (Some msg, s1)
      | WriteOk \<Rightarrow> (None, handleDeleteItem_done s1)
      | WriteError msg \<Rightarrow>
          (let s2 = console_error ''Supabase delete error:'' msg s1 in
           if devAuthenticated s2
           then (None, handleDeleteItem_done
                   (s2\<lparr>items := filter (\<lambda>item. item_id item \<noteq> i) (items s)\<rparr>))
           else (Some msg, s2)))"

text \<open>
  \<open>confirm\<close> is the user: the answer to the dialog that \<^verbatim>\<open>window.confirm\<close> opens with
  the given text. A refusal returns before the try block.
\<close>

definition handleDeleteItem ::
  "string \<Rightarrow> (string \<Rightarrow> bool) \<Rightarrow> write_result \<Rightarrow> page \<Rightarrow> page" where
  "handleDeleteItem i confirm w s =
     (if \<not> confirm confirm_delete_text then s
      else
        (let (thrown, s1) = handleDeleteItem_try i w s;
             s2 = (case thrown of
                     None \<Rightarrow> s1
                   | Some msg \<Rightarrow> show_toast (toast_delete_error msg) s1)
         in s2\<lparr>loading := False\<rparr>))"

definition handleDeleteItem_reloaded ::
  "string \<Rightarrow> (string \<Rightarrow> bool) \<Rightarrow> write_result \<Rightarrow> select_result \<Rightarrow> page \<Rightarrow> page" where
  "handleDeleteItem_reloaded i confirm w r s =
     (if \<not> confirm confirm_delete_text then s
      else
        (case fst (handleDeleteItem_try i w s) of
           None \<Rightarrow> fetchMenuItems_resume r (handleDeleteItem i confirm w s)
         | Some msg \<Rightarrow> handleDeleteItem i confirm w s))"

subsection \<open>signOut\<close>

definition toast_signed_out :: toast where
  "toast_signed_out =
     \<lparr> variant = Default,
       title = ''Sesi'' @ [CHR 0xF3] @ ''n cerrada'',
       toast_description = ''Ha cerrado sesi'' @ [CHR 0xF3] @ ''n correctamente'' \<rparr>"

definition signOut_catch :: "string \<Rightarrow> page \<Rightarrow> page" where
  "signOut_catch msg s =
     navigate ''/admin''
       (show_toast toast_signed_out
          (removeItem ''dev_admin_authenticated''
             (console_error ''Sign out error:'' msg s)))"

definition signOut :: "write_result \<Rightarrow> page \<Rightarrow> page" where
  "signOut w s =
     (let s1 = send ReqSignOut s in
      case w of
        WriteOk \<Rightarrow>
          navigate ''/admin''
            (show_toast toast_signed_out (removeItem ''dev_admin_authenticated'' s1))
      | WriteError msg \<Rightarrow> signOut_catch msg s1
      | WriteThrows msg \<Rightarrow> signOut_catch msg s1)"

subsection \<open>checkAuth\<close>

definition toast_invalid_session :: toast where
  "toast_invalid_session =
     \<lparr> variant = Destructive,
       title = ''Sesi'' @ [CHR 0xF3] @ ''n no v'' @ [CHR 0xE1] @ ''lida'',
       toast_description =
         ''Por favor, inicie sesi'' @ [CHR 0xF3] @
         ''n para acceder al panel de administraci'' @ [CHR 0xF3] @ ''n'' \<rparr>"

definition checkAuth_begin :: "page \<Rightarrow> page" where
  "checkAuth_begin s = send ReqSessionCheck s"

definition checkAuth_resume :: "session_result \<Rightarrow> page \<Rightarrow> page" where
  "checkAuth_resume a s =
     (case a of
        SessionValid authenticated \<Rightarrow>
          (if \<not> authenticated \<and> \<not> devAuthenticated s
           then navigate ''/admin'' (show_toast toast_invalid_session s)
           else s)
      | SessionThrows msg \<Rightarrow>
          (let s' = console_error ''Error checking authentication:'' msg s in
           if \<not> devAuthenticated s' then navigate ''/admin'' s' else s'))"

definition checkAuth :: "session_result \<Rightarrow> page \<Rightarrow> page" where
  "checkAuth a s = checkAuth_resume a (checkAuth_begin s)"

subsection \<open>The mount effect and the push channel\<close>

definition subscribe_menu_changes :: "page \<Rightarrow> channel \<times> page" where
  "subscribe_menu_changes s =
     (let c = \<lparr> chan_id = next_chan s, topic = ''menu_changes'',
                kind = ''postgres_changes'', event_filter = ''*'', schema = ''public'',
                table = ''menu_items'' \<rparr>
      in (c, s\<lparr>channels := channels s @ [c], next_chan := Suc (next_chan s)\<rparr>))"

definition removeChannel :: "channel \<Rightarrow> page \<Rightarrow> page" where
  "removeChannel c s =
     s\<lparr>channels := filter (\<lambda>c'. chan_id c' \<noteq> chan_id c) (channels s)\<rparr>"

text \<open>
  The body of \<^verbatim>\<open>useEffect(..., [])\<close>, run once when the page is mounted: both calls
  run up to their \<^verbatim>\<open>await\<close>, then the channel is opened. The result holds the
  subscription that the cleanup function keeps.
\<close>

definition useEffect_mount :: "page \<Rightarrow> channel \<times> page" where
  "useEffect_mount s = subscribe_menu_changes (fetchMenuItems_begin (checkAuth_begin s))"

definition useEffect_cleanup :: "channel \<Rightarrow> page \<Rightarrow> page" where
  "useEffect_cleanup subscription s = removeChannel subscription s"

text \<open>The callback of the channel: the payload is logged and the loader runs.\<close>

definition on_menu_change :: "change_event \<Rightarrow> select_result \<Rightarrow> page \<Rightarrow> page" where
  "on_menu_change payload r s =
     fetchMenuItems r (console_log ''Real-time update:'' (event_name payload) s)"

text \<open>
  Modelled from the spec: the client delivers an event on a subscription by calling its
  callback, and only while the subscription is open.
\<close>

definition is_open :: "channel \<Rightarrow> page \<Rightarrow> bool" where
  "is_open c s = (chan_id c \<in> set (map chan_id (channels s)))"

definition deliver :: "channel \<Rightarrow> change_event \<Rightarrow> select_result \<Rightarrow> page \<Rightarrow> page" where
  "deliver c payload r s = (if is_open c s then on_menu_change payload r s else s)"

subsection \<open>Concrete pages and users\<close>

text \<open>
  A browser without the development flag and one with it; a user who refuses every dialog
  and one who accepts; the pages on which the properties below are evaluated.
\<close>

definition no_storage :: "string \<rightharpoonup> string" where
  "no_storage = Map.empty"

definition dev_storage :: "string \<rightharpoonup> string" where
  "dev_storage = [''dev_admin_authenticated'' \<mapsto> ''true'']"

definition user_declines :: "string \<Rightarrow> bool" where
  "user_declines text = False"

definition user_accepts :: "string \<Rightarrow> bool" where
  "user_accepts text = True"

text \<open>The sample records are shown, nothing is in flight, the flag is set.\<close>

definition page_with_mock :: page where
  "page_with_mock = (AdminMenu_init dev_storage)\<lparr>items := mockData, loading := False\<rparr>"

definition new_price :: MenuItem_partial where
  "new_price = no_updates\<lparr>p_price := Some ''$16.99''\<rparr>"


text \<open>The edit modal is open on the first record; the flag is not set.\<close>

definition page_editing :: page where
  "page_editing = (AdminMenu_init no_storage)
     \<lparr>items := mockData, loading := False, selectedItem := Some (hd mockData),
      isEditing := True\<rparr>"

text \<open>A freshly mounted page, with the subscription its cleanup holds.\<close>

definition page_mounted :: "channel \<times> page" where
  "page_mounted = useEffect_mount (AdminMenu_init no_storage)"

text \<open>
  A first load has shown the sample records and a reload is in flight: the grid, with its
  delete buttons, stays visible while \<open>loading\<close> is true.
\<close>

definition page_reloading :: page where
  "page_reloading =
     fetchMenuItems_begin
       (fetchMenuItems (SelectData (Some mockData)) (AdminMenu_init no_storage))"

section \<open>Properties\<close>

subsection \<open>Auxiliary facts\<close>

lemmas effect_defs = show_toast_def navigate_def console_error_def console_log_def send_def
  removeItem_def fetchMenuItems_begin_def

lemma AdminMenu_init_sel [simp]:
  "items (AdminMenu_init st) = []"
  "loading (AdminMenu_init st) = True"
  "selectedItem (AdminMenu_init st) = None"
  "isEditing (AdminMenu_init st) = False"
  "localStorage (AdminMenu_init st) = st"
  "toasts (AdminMenu_init st) = []"
  "navigated (AdminMenu_init st) = []"
  "console (AdminMenu_init st) = []"
  "requests (AdminMenu_init st) = []"
  "channels (AdminMenu_init st) = []"
  "next_chan (AdminMenu_init st) = 0"
  by (simp_all add: AdminMenu_init_def)

lemma devAuthenticated_effects [simp]:
  "devAuthenticated (show_toast t s) = devAuthenticated s"
  "devAuthenticated (navigate route s) = devAuthenticated s"
  "devAuthenticated (console_error label msg s) = devAuthenticated s"
  "devAuthenticated (console_log label msg s) = devAuthenticated s"
  "devAuthenticated (send q s) = devAuthenticated s"
  "devAuthenticated (fetchMenuItems_begin s) = devAuthenticated s"
  by (simp_all add: devAuthenticated_def show_toast_def navigate_def console_error_def
      console_log_def send_def fetchMenuItems_begin_def)

lemma devAuthenticated_updates [simp]:
  "devAuthenticated (s\<lparr>items := xs\<rparr>) = devAuthenticated s"
  "devAuthenticated (s\<lparr>loading := b\<rparr>) = devAuthenticated s"
  "devAuthenticated (s\<lparr>selectedItem := sel\<rparr>) = devAuthenticated s"
  "devAuthenticated (s\<lparr>isEditing := b\<rparr>) = devAuthenticated s"
  "devAuthenticated (s\<lparr>toasts := ts\<rparr>) = devAuthenticated s"
  "devAuthenticated (s\<lparr>navigated := ns\<rparr>) = devAuthenticated s"
  "devAuthenticated (s\<lparr>console := cs\<rparr>) = devAuthenticated s"
  "devAuthenticated (s\<lparr>requests := qs\<rparr>) = devAuthenticated s"
  "devAuthenticated (s\<lparr>channels := chs\<rparr>) = devAuthenticated s"
  "devAuthenticated (s\<lparr>next_chan := n\<rparr>) = devAuthenticated s"
  by (simp_all add: devAuthenticated_def)

lemma dev_init [simp]:
  "devAuthenticated (AdminMenu_init dev_storage)"
  "\<not> devAuthenticated (AdminMenu_init no_storage)"
  by (simp_all add: devAuthenticated_def AdminMenu_init_def dev_storage_def no_storage_def)

lemma page_with_mock_dev [simp]: "devAuthenticated page_with_mock"
  by (simp add: page_with_mock_def devAuthenticated_def dev_storage_def)

lemma page_editing_no_dev [simp]: "\<not> devAuthenticated page_editing"
  by (simp add: page_editing_def devAuthenticated_def no_storage_def)

lemma handlers_keep_channels:
  "channels (fetchMenuItems r s) = channels s"
  "channels (handleUpdateItem i updates w s) = channels s"
  "channels (handleUpdateItem_reloaded i updates w r s) = channels s"
  "channels (handleDeleteItem i confirm w s) = channels s"
  "channels (handleDeleteItem_reloaded i confirm w r s) = channels s"
  "channels (signOut w s) = channels s"
  "channels (checkAuth a s) = channels s"
  by (auto simp add: fetchMenuItems_def fetchMenuItems_resume_def handleUpdateItem_def
        handleUpdateItem_reloaded_def handleUpdateItem_try_def handleUpdateItem_done_def
        handleDeleteItem_def handleDeleteItem_reloaded_def handleDeleteItem_try_def
        handleDeleteItem_done_def signOut_def signOut_catch_def checkAuth_def
        checkAuth_begin_def checkAuth_resume_def Let_def effect_defs
        split: write_result.splits select_result.splits session_result.splits)

lemma filter_fresh_id:
  "\<forall>c \<in> set cs. chan_id c < n \<Longrightarrow> filter (\<lambda>c'. chan_id c' \<noteq> n) cs = cs"
  by (induction cs) auto

subsection \<open>The loader\<close>

text \<open>
  C1. The backend read fails and the development flag is not set. When the answer carries
  an error (the \<^verbatim>\<open>if (error)\<close> branch), the loader writes a console line and
  nothing else: the items are those of before, and no toast is shown, although an error
  notification with the backend's message is expected there.
\<close>

theorem fetchMenuItems_error_without_flag_silent:
  "\<not> devAuthenticated s \<Longrightarrow>
   toasts (fetchMenuItems (SelectError msg) s) = toasts s \<and>
   items (fetchMenuItems (SelectError msg) s) = items s \<and>
   console (fetchMenuItems (SelectError msg) s) =
     console s @ [ConsoleError ''Supabase fetch error:'' msg]"
  by (simp add: fetchMenuItems_def fetchMenuItems_resume_def Let_def)
     (simp add: console_error_def fetchMenuItems_begin_def send_def)

theorem fetchMenuItems_error_without_flag_silent_witness:
  "\<not> devAuthenticated (AdminMenu_init no_storage) \<and>
   toasts (fetchMenuItems (SelectError ''connection refused'') (AdminMenu_init no_storage)) = []"
proof -
  have h: "\<not> devAuthenticated (AdminMenu_init no_storage)" by simp
  from fetchMenuItems_error_without_flag_silent [OF h, of "''connection refused''"]
  show ?thesis using h by simp
qed

text \<open>
  The error toast with the message belongs to the catch block alone, that is to a read
  that throws.
\<close>

lemma fetchMenuItems_throw_without_flag:
  "\<not> devAuthenticated s \<Longrightarrow>
   toasts (fetchMenuItems (SelectThrows msg) s) = toasts s @ [toast_load_error msg] \<and>
   items (fetchMenuItems (SelectThrows msg) s) = items s"
  by (simp add: fetchMenuItems_def fetchMenuItems_resume_def Let_def)
     (simp add: console_error_def fetchMenuItems_begin_def send_def show_toast_def)

text \<open>
  C2. The backend read fails and the development flag is set. When the read throws, the
  catch block shows the error toast and empties the collection: the items are not the
  sample dataset, and no informational toast is shown.
\<close>

theorem fetchMenuItems_throw_with_flag_empty:
  "devAuthenticated s \<Longrightarrow>
   items (fetchMenuItems (SelectThrows msg) s) = [] \<and>
   toasts (fetchMenuItems (SelectThrows msg) s) = toasts s @ [toast_load_error msg]"
  by (simp add: fetchMenuItems_def fetchMenuItems_resume_def Let_def)
     (simp add: console_error_def fetchMenuItems_begin_def send_def show_toast_def)

theorem fetchMenuItems_throw_with_flag_empty_witness:
  "devAuthenticated (AdminMenu_init dev_storage) \<and>
   items (fetchMenuItems (SelectThrows ''Failed to fetch'') (AdminMenu_init dev_storage))
     \<noteq> mockData \<and>
   toasts (fetchMenuItems (SelectThrows ''Failed to fetch'') (AdminMenu_init dev_storage))
     = [toast_load_error ''Failed to fetch'']"
proof -
  have h: "devAuthenticated (AdminMenu_init dev_storage)" by simp
  from fetchMenuItems_throw_with_flag_empty [OF h, of "''Failed to fetch''"]
  show ?thesis using h by (simp add: mockData_def)
qed

text \<open>
  When the answer carries an error instead, the items become the sample dataset, whose
  two records have the ids 1 and 2, and the informational toast is shown.
\<close>

lemma fetchMenuItems_error_with_flag:
  "devAuthenticated s \<Longrightarrow>
   items (fetchMenuItems (SelectError msg) s) = mockData \<and>
   toasts (fetchMenuItems (SelectError msg) s) = toasts s @ [toast_dev_mode]"
  by (simp add: fetchMenuItems_def fetchMenuItems_resume_def Let_def)
     (simp add: console_error_def fetchMenuItems_begin_def send_def show_toast_def)

lemma mockData_ids: "map item_id mockData = [''1'', ''2'']"
  by (simp add: mockData_def)



subsection \<open>The update handler\<close>




text \<open>
  The handler has started the loader without awaiting it. When that read fails as well,
  the loader's development branch replaces the collection by the sample dataset.
\<close>

lemma handleUpdateItem_reloaded_sample:
  "devAuthenticated s \<Longrightarrow>
   items (handleUpdateItem_reloaded i updates (WriteError msg) (SelectError msg') s)
     = mockData"
  by (simp add: handleUpdateItem_reloaded_def handleUpdateItem_def handleUpdateItem_try_def
        handleUpdateItem_done_def fetchMenuItems_resume_def Let_def)
     (simp add: effect_defs)

text \<open>
  C5. When the error of an update is propagated (the answer carries an error and the
  development flag is not set, or the call throws), the error toast with the failure
  message is shown, the edit modal is as before, and no loader runs. On every other path
  the success toast is shown, the loader is run again (its read is sent, and the rest of
  it runs when the answer arrives), and the modal is closed: \<open>isEditing\<close> is false
  and \<open>selectedItem\<close> is cleared.
\<close>

theorem handleUpdateItem_outcomes:
  "(w = WriteThrows msg \<or> (w = WriteError msg \<and> \<not> devAuthenticated s) \<longrightarrow>
      toasts (handleUpdateItem i updates w s) = toasts s @ [toast_update_error msg] \<and>
      isEditing (handleUpdateItem i updates w s) = isEditing s \<and>
      selectedItem (handleUpdateItem i updates w s) = selectedItem s \<and>
      requests (handleUpdateItem i updates w s) = requests s @ [ReqUpdate i updates] \<and>
      handleUpdateItem_reloaded i updates w r s = handleUpdateItem i updates w s) \<and>
   (w = WriteOk \<or> (w = WriteError msg \<and> devAuthenticated s) \<longrightarrow>
      toasts (handleUpdateItem i updates w s) = toasts s @ [toast_update_ok] \<and>
      requests (handleUpdateItem i updates w s) =
        requests s @ [ReqUpdate i updates, ReqSelect] \<and>
      handleUpdateItem_reloaded i updates w r s =
        fetchMenuItems_resume r (handleUpdateItem i updates w s) \<and>
      isEditing (handleUpdateItem i updates w s) = False \<and>
      selectedItem (handleUpdateItem i updates w s) = None)"
  by (auto simp add: handleUpdateItem_def handleUpdateItem_reloaded_def
        handleUpdateItem_try_def handleUpdateItem_done_def Let_def effect_defs)

theorem handleUpdateItem_outcomes_witness:
  "toasts (handleUpdateItem ''1'' new_price (WriteError ''denied'') page_editing)
     = [toast_update_error ''denied''] \<and>
   isEditing (handleUpdateItem ''1'' new_price (WriteError ''denied'') page_editing) \<and>
   toasts (handleUpdateItem ''1'' new_price WriteOk page_editing) = [toast_update_ok] \<and>
   requests (handleUpdateItem ''1'' new_price WriteOk page_editing)
     = [ReqUpdate ''1'' new_price, ReqSelect] \<and>
   \<not> isEditing (handleUpdateItem ''1'' new_price WriteOk page_editing) \<and>
   selectedItem (handleUpdateItem ''1'' new_price WriteOk page_editing) = None"
  using handleUpdateItem_outcomes
          [of "WriteError ''denied''" "''denied''" page_editing "''1''" new_price]
        handleUpdateItem_outcomes
          [of WriteOk "''denied''" page_editing "''1''" new_price]
  by (simp add: page_editing_def)

subsection \<open>The delete handler\<close>

text \<open>
  C6. A delete asks for confirmation first. When the user declines, the handler changes
  nothing: no request is sent and the whole state, the items included, is the one of
  before, also after any answer of the backend. When the user accepts, the delete request
  is the next request sent.
\<close>

theorem handleDeleteItem_declined:
  "(\<not> confirm confirm_delete_text \<longrightarrow>
      handleDeleteItem i confirm w s = s \<and>
      handleDeleteItem_reloaded i confirm w r s = s) \<and>
   (confirm confirm_delete_text \<longrightarrow>
      take (Suc (length (requests s))) (requests (handleDeleteItem i confirm w s))
        = requests s @ [ReqDelete i])"
  by (auto simp add: handleDeleteItem_def handleDeleteItem_reloaded_def
        handleDeleteItem_try_def handleDeleteItem_done_def Let_def effect_defs
        split: write_result.splits)

theorem handleDeleteItem_declined_witness:
  "\<not> user_declines confirm_delete_text \<and>
   handleDeleteItem ''2'' user_declines WriteOk page_with_mock = page_with_mock \<and>
   user_accepts confirm_delete_text \<and>
   requests (handleDeleteItem ''2'' user_accepts WriteOk page_with_mock)
     = [ReqDelete ''2'', ReqSelect]"
proof -
  have d: "\<not> user_declines confirm_delete_text" by (simp add: user_declines_def)
  have a: "user_accepts confirm_delete_text" by (simp add: user_accepts_def)
  have q: "requests (handleDeleteItem ''2'' user_accepts WriteOk page_with_mock)
             = [ReqDelete ''2'', ReqSelect]"
    by (simp add: handleDeleteItem_def handleDeleteItem_try_def handleDeleteItem_done_def
          Let_def effect_defs a page_with_mock_def)
  from handleDeleteItem_declined [of user_declines "''2''" WriteOk page_with_mock]
  show ?thesis using d a q by simp
qed

subsection \<open>Sign-out\<close>

text \<open>
  C7. Whatever the backend answers to the sign-out (success, an error, a throw), the
  development flag is removed from local storage, the toast "session closed" is shown and
  the page navigates to /admin.
\<close>

theorem signOut_always:
  "localStorage (signOut w s) ''dev_admin_authenticated'' = None \<and>
   \<not> devAuthenticated (signOut w s) \<and>
   toasts (signOut w s) = toasts s @ [toast_signed_out] \<and>
   navigated (signOut w s) = navigated s @ [''/admin'']"
  by (cases w) (simp_all add: signOut_def signOut_catch_def Let_def effect_defs
      devAuthenticated_def)

theorem signOut_always_witness:
  "devAuthenticated page_with_mock \<and>
   \<not> devAuthenticated (signOut (WriteError ''network'') page_with_mock) \<and>
   navigated (signOut (WriteError ''network'') page_with_mock) = [''/admin''] \<and>
   navigated (signOut WriteOk page_with_mock) = [''/admin''] \<and>
   navigated (signOut (WriteThrows ''network'') page_with_mock) = [''/admin'']"
  using signOut_always [of "WriteError ''network''" page_with_mock]
        signOut_always [of WriteOk page_with_mock]
        signOut_always [of "WriteThrows ''network''" page_with_mock]
  by (simp add: page_with_mock_def)

subsection \<open>The session guard\<close>



subsection \<open>The push channel\<close>

text \<open>
  C9. Mounting the page opens exactly one subscription, on the table \<open>menu_items\<close> and
  for every kind of event. Every event delivered on it while it is open runs the loader,
  whatever the payload. The cleanup of the effect releases it: it is no longer open, an
  event delivered afterwards changes nothing, and on a page whose channel identifiers are
  fresh the open subscriptions are again those of before the mount.
\<close>

theorem push_channel_lifecycle:
  "useEffect_mount s = (sub, s1) \<Longrightarrow>
   channels s1 = channels s @ [sub] \<and>
   topic sub = ''menu_changes'' \<and> event_filter sub = ''*'' \<and>
   schema sub = ''public'' \<and> table sub = ''menu_items'' \<and>
   is_open sub s1 \<and>
   (is_open sub s' \<longrightarrow>
      deliver sub payload r s' =
        fetchMenuItems r (console_log ''Real-time update:'' (event_name payload) s') \<and>
      requests (deliver sub payload r s') = requests s' @ [ReqSelect]) \<and>
   \<not> is_open sub (useEffect_cleanup sub s') \<and>
   deliver sub payload r (useEffect_cleanup sub s') = useEffect_cleanup sub s' \<and>
   ((\<forall>c \<in> set (channels s). chan_id c < next_chan s) \<longrightarrow>
      channels (useEffect_cleanup sub s1) = channels s)"
proof -
  assume m: "useEffect_mount s = (sub, s1)"
  have sub: "sub = \<lparr> chan_id = next_chan s, topic = ''menu_changes'',
               kind = ''postgres_changes'', event_filter = ''*'', schema = ''public'',
               table = ''menu_items'' \<rparr>"
    and s1: "channels s1 = channels s @ [sub]"
    using m by (auto simp add: useEffect_mount_def subscribe_menu_changes_def Let_def
        checkAuth_begin_def effect_defs)
  have opened: "is_open sub s1"
    by (simp add: is_open_def s1)
  have run: "is_open sub s' \<longrightarrow>
      deliver sub payload r s' =
        fetchMenuItems r (console_log ''Real-time update:'' (event_name payload) s') \<and>
      requests (deliver sub payload r s') = requests s' @ [ReqSelect]"
    by (cases r) (auto simp add: deliver_def on_menu_change_def fetchMenuItems_def
        fetchMenuItems_resume_def Let_def effect_defs)
  have closed: "\<not> is_open sub (useEffect_cleanup sub s')"
    by (auto simp add: is_open_def useEffect_cleanup_def removeChannel_def)
  have silent: "deliver sub payload r (useEffect_cleanup sub s') = useEffect_cleanup sub s'"
    using closed by (simp add: deliver_def)
  have released: "(\<forall>c \<in> set (channels s). chan_id c < next_chan s) \<longrightarrow>
      channels (useEffect_cleanup sub s1) = channels s"
    by (simp add: useEffect_cleanup_def removeChannel_def s1 sub filter_fresh_id)
  have filters: "topic sub = ''menu_changes'' \<and> event_filter sub = ''*'' \<and>
      schema sub = ''public'' \<and> table sub = ''menu_items''"
    by (simp add: sub)
  show ?thesis
    using s1 filters opened run closed silent released by blast
qed

theorem push_channel_lifecycle_witness:
  "length (channels (snd page_mounted)) = 1 \<and>
   requests (deliver (fst page_mounted) UPDATE (SelectData None) (snd page_mounted))
     = [ReqSessionCheck, ReqSelect, ReqSelect] \<and>
   channels (useEffect_cleanup (fst page_mounted) (snd page_mounted)) = [] \<and>
   requests (deliver (fst page_mounted) UPDATE (SelectData None)
               (useEffect_cleanup (fst page_mounted) (snd page_mounted)))
     = [ReqSessionCheck, ReqSelect]"
proof -
  have m: "useEffect_mount (AdminMenu_init no_storage) = (fst page_mounted, snd page_mounted)"
    by (simp add: page_mounted_def)
  have q: "requests (snd page_mounted) = [ReqSessionCheck, ReqSelect]"
    by (simp add: page_mounted_def useEffect_mount_def subscribe_menu_changes_def Let_def
          checkAuth_begin_def effect_defs)
  have q': "requests (useEffect_cleanup (fst page_mounted) (snd page_mounted))
              = [ReqSessionCheck, ReqSelect]"
    by (simp add: useEffect_cleanup_def removeChannel_def q)
  have fresh: "\<forall>c \<in> set (channels (AdminMenu_init no_storage)).
                 chan_id c < next_chan (AdminMenu_init no_storage)"
    by simp
  note L = push_channel_lifecycle [OF m, of "snd page_mounted" UPDATE "SelectData None"]
  have c1: "channels (snd page_mounted) = [fst page_mounted]"
    using L by simp
  have o: "is_open (fst page_mounted) (snd page_mounted)"
    using L by blast
  have d1: "requests (deliver (fst page_mounted) UPDATE (SelectData None) (snd page_mounted))
              = requests (snd page_mounted) @ [ReqSelect]"
    using L o by blast
  have d2: "deliver (fst page_mounted) UPDATE (SelectData None)
              (useEffect_cleanup (fst page_mounted) (snd page_mounted))
              = useEffect_cleanup (fst page_mounted) (snd page_mounted)"
    using L by blast
  have c2: "channels (useEffect_cleanup (fst page_mounted) (snd page_mounted)) = []"
    using L fresh by simp
  show ?thesis
    by (simp add: c1 d1 d2 c2 q q')
qed

subsection \<open>The loading flag\<close>

text \<open>
  C10, as stated, fails for a delete that the user declines: the handler returns before its
  try block, so no finally block runs, and a page that was loading is still loading.
\<close>

theorem declined_delete_keeps_loading:
  "loading (handleDeleteItem ''2'' user_declines WriteOk page_reloading) \<noteq> False"
  by (simp add: handleDeleteItem_def user_declines_def page_reloading_def effect_defs)

text \<open>
  C10, amended. After the loader, after an update, and after a delete that the user has
  confirmed, the loading flag is false on every path, when the handler returns and also
  when the loader it started has finished. A declined delete leaves the flag as it was.
\<close>

theorem handlers_reset_loading:
  "loading (fetchMenuItems r s) = False \<and>
   loading (handleUpdateItem i updates w s) = False \<and>
   loading (handleUpdateItem_reloaded i updates w r s) = False \<and>
   (confirm confirm_delete_text \<longrightarrow>
      loading (handleDeleteItem j confirm w s) = False \<and>
      loading (handleDeleteItem_reloaded j confirm w r s) = False) \<and>
   (\<not> confirm confirm_delete_text \<longrightarrow>
      loading (handleDeleteItem j confirm w s) = loading s)"
proof -
  have resume: "loading (fetchMenuItems_resume r t) = False" for t
    by (simp add: fetchMenuItems_resume_def Let_def)
  have upd: "loading (handleUpdateItem i updates w s) = False"
    by (simp add: handleUpdateItem_def Let_def split: prod.splits)
  have del: "confirm confirm_delete_text \<Longrightarrow> loading (handleDeleteItem j confirm w s) = False"
    by (simp add: handleDeleteItem_def Let_def split: prod.splits)
  show ?thesis
    using resume upd del
    by (simp add: fetchMenuItems_def handleUpdateItem_reloaded_def
          handleDeleteItem_reloaded_def handleDeleteItem_def split: option.splits)
qed

theorem handlers_reset_loading_witness:
  "loading page_reloading \<and>
   loading (fetchMenuItems (SelectError ''x'') page_reloading) = False \<and>
   loading (handleUpdateItem ''1'' new_price (WriteThrows ''x'') page_reloading) = False \<and>
   loading (handleDeleteItem ''2'' user_accepts (WriteError ''x'') page_reloading) = False \<and>
   loading (handleDeleteItem ''2'' user_declines (WriteError ''x'') page_reloading) = True"
proof -
  have l: "loading page_reloading" by (simp add: page_reloading_def effect_defs)
  have d: "\<not> user_declines confirm_delete_text" by (simp add: user_declines_def)
  have a: "user_accepts confirm_delete_text" by (simp add: user_accepts_def)
  from handlers_reset_loading
         [of "SelectError ''x''" page_reloading "''1''" new_price "WriteThrows ''x''"
             user_accepts "''2''"]
       handlers_reset_loading
         [of "SelectError ''x''" page_reloading "''1''" new_price "WriteError ''x''"
             user_accepts "''2''"]
       handlers_reset_loading
         [of "SelectError ''x''" page_reloading "''1''" new_price "WriteError ''x''"
             user_declines "''2''"]
  show ?thesis using l d a by simp
qed

end
